theory Spec2Isabelle
  imports Main
begin

section \<open>Thrown values\<close>

text \<open>
  Everything the TypeScript code throws or lets through is a value of \<open>exn\<close>; a
  call that may throw returns \<open>exn + 'a\<close> with \<open>Inl\<close> for the thrown value.
  \<^item> \<open>PrismaClientKnownRequestError code\<close> is the ORM's error class with its code
    (\<open>P2002\<close> unique constraint, \<open>P2025\<close> record not found, ...);
  \<^item> \<open>Error msg\<close> stands for every other thrown value of a collaborator;
  \<^item> the three framework exceptions carry their message, \<open>new UnauthorizedException()\<close>
    without argument having the message \<open>Unauthorized\<close>.
\<close>

datatype exn =
    PrismaClientKnownRequestError string
  | Error string
  | ConflictException string
  | UnauthorizedException string
  | UnprocessableEntityException "(string \<times> string) list"

definition UnauthorizedException_default :: exn where
  "UnauthorizedException_default = UnauthorizedException ''Unauthorized''"

section \<open>Guard composer (authentication.guard.ts)\<close>

text \<open>
  Modelled from the spec: \<open>constants/auth.constant.ts\<close> is not among the sources. The
  spec's strategies are BearerToken, APIKey and None, its combinators AND and OR; the
  constructors carry the names the guard and the routes use for them (\<open>AuthType.Bearer\<close>,
  \<open>AuthType.APIKey\<close>, \<open>AuthType.None\<close>, \<open>ConditionGuard.And\<close>, \<open>ConditionGuard.Or\<close>).
\<close>

datatype AuthType = Bearer | APIKey | None_auth

datatype ConditionGuard = And | Or

record auth_options =
  condition :: ConditionGuard

record AuthTypeDecoratorPayload =
  authTypes :: "AuthType list"
  options :: auth_options

text \<open>
  What a call \<open>instance.canActivate(context)\<close> can do: throw before it returns anything,
  as a method that is not \<open>async\<close> does (\<open>APIKeyGuard\<close>); return a promise that rejects,
  as an \<open>async\<close> method does when it throws; or return, or resolve to, true or false.
\<close>

datatype outcome = Throws exn | Rejects exn | Returns bool

text \<open>
  A guard may also change the request it is given (the bearer guard attaches the decoded
  user): it is a function from the context to its outcome and the context it leaves.
\<close>

type_synonym 'c guard = "'c \<Rightarrow> outcome \<times> 'c"

text \<open>
  The constructor's table: the bearer guard and the API-key guard, both injected, and the
  constant guard of \<open>None\<close>.
\<close>

fun authTypeGuardMap :: "'c guard \<Rightarrow> 'c guard \<Rightarrow> AuthType \<Rightarrow> 'c guard" where
  "authTypeGuardMap accessTokenGuard apiKeyGuard Bearer = accessTokenGuard"
| "authTypeGuardMap accessTokenGuard apiKeyGuard APIKey = apiKeyGuard"
| "authTypeGuardMap accessTokenGuard apiKeyGuard None_auth = (\<lambda>context. (Returns True, context))"

text \<open>
  \<open>await Promise.resolve(instance.canActivate(context)).catch((err) => { error = err; return false })\<close>.
  The call \<open>instance.canActivate(context)\<close> is evaluated first, as the argument of
  \<open>Promise.resolve\<close>: when it throws, no promise exists yet for \<open>catch\<close> to be attached
  to, and the exception leaves the loop and \<open>canActivate\<close> (\<open>Inl\<close>). Otherwise the
  statement yields the value of \<open>canActivate\<close> and the \<open>error\<close> variable afterwards:
  a rejection is caught, stored in \<open>error\<close> and turned into false.
\<close>

definition guarded :: "'c guard \<Rightarrow> exn \<Rightarrow> 'c \<Rightarrow> (exn + bool \<times> exn) \<times> 'c" where
  "guarded instance error context =
     (case instance context of
        (Throws e, context') \<Rightarrow> (Inl e, context')
      | (Rejects err, context') \<Rightarrow> (Inr (False, err), context')
      | (Returns b, context') \<Rightarrow> (Inr (b, error), context'))"

text \<open>The loop of the \<open>Or\<close> branch, followed by \<open>throw error\<close>.\<close>

fun or_loop :: "'c guard list \<Rightarrow> exn \<Rightarrow> 'c \<Rightarrow> (exn + bool) \<times> 'c" where
  "or_loop [] error context = (Inl error, context)"
| "or_loop (instance # guards) error context =
     (case guarded instance error context of
        (Inl e, context') \<Rightarrow> (Inl e, context')
      | (Inr (canActivate, error'), context') \<Rightarrow>
          if canActivate then (Inr True, context')
          else or_loop guards error' context')"

text \<open>The loop of the other branch, followed by \<open>return true\<close>.\<close>

fun and_loop :: "'c guard list \<Rightarrow> exn \<Rightarrow> 'c \<Rightarrow> (exn + bool) \<times> 'c" where
  "and_loop [] error context = (Inr True, context)"
| "and_loop (instance # guards) error context =
     (case guarded instance error context of
        (Inl e, context') \<Rightarrow> (Inl e, context')
      | (Inr (canActivate, error'), context') \<Rightarrow>
          if \<not> canActivate then (Inl error', context')
          else and_loop guards error' context')"

text \<open>
  \<open>AuthenticationGuard.canActivate\<close>. The first argument is the constructor's table, the
  second what the reflector found for the handler or its class (\<open>None\<close> for undefined).
\<close>

definition canActivate ::
  "(AuthType \<Rightarrow> 'c guard) \<Rightarrow> AuthTypeDecoratorPayload option \<Rightarrow> 'c \<Rightarrow> (exn + bool) \<times> 'c" where
  "canActivate guardMap reflected context =
     (let authTypeValue =
            (case reflected of
               Some v \<Rightarrow> v
             | None \<Rightarrow> \<lparr>authTypes = [None_auth], options = \<lparr>condition = And\<rparr>\<rparr>);
          guards = map guardMap (authTypes authTypeValue);
          error = UnauthorizedException_default
      in if condition (options authTypeValue) = Or
         then or_loop guards error context
         else and_loop guards error context)"

text \<open>\<open>Auth(authTypes, options?)\<close> of auth.decorator.ts: the metadata a route declares.\<close>

definition Auth :: "AuthType list \<Rightarrow> auth_options option \<Rightarrow> AuthTypeDecoratorPayload" where
  "Auth ats opts =
     \<lparr>authTypes = ats,
      options = (case opts of Some v \<Rightarrow> v | None \<Rightarrow> \<lparr>condition = And\<rparr>)\<rparr>"

subsection \<open>API-key guard (api-key.guard.ts)\<close>

text \<open>
  The request as far as this guard reads it: its headers. The configured key,
  \<open>envConfig.SECRET_API_KEY\<close>, is the first argument. A missing header is \<open>undefined\<close>
  and differs from every key. The method is not \<open>async\<close>: its \<open>throw\<close> is a throw of
  the call itself.
\<close>

record Request =
  headers :: "string \<Rightarrow> string option"

definition APIKeyGuard :: "string \<Rightarrow> Request guard" where
  "APIKeyGuard SECRET_API_KEY request =
     (let xApiKey = headers request ''x-api-key''
      in if xApiKey \<noteq> Some SECRET_API_KEY
         then (Throws UnauthorizedException_default, request)
         else (Returns True, request))"

subsection \<open>Running a list of strategies in order\<close>

text \<open>
  \<open>each_outcome P gs c = Some c'\<close>: called one after the other from context \<open>c\<close>,
  every guard of \<open>gs\<close> has an outcome satisfying \<open>P\<close>, and the last leaves \<open>c'\<close>.
\<close>

fun each_outcome :: "(outcome \<Rightarrow> bool) \<Rightarrow> 'c guard list \<Rightarrow> 'c \<Rightarrow> 'c option" where
  "each_outcome P [] c = Some c"
| "each_outcome P (g # gs) c =
     (case g c of (r, c') \<Rightarrow> if P r then each_outcome P gs c' else None)"

text \<open>
  A strategy succeeds when it returns true; it fails when it throws, rejects or returns
  false.
\<close>

definition succeeds :: "outcome \<Rightarrow> bool" where
  "succeeds r = (r = Returns True)"

definition fails :: "outcome \<Rightarrow> bool" where
  "fails r = (r \<noteq> Returns True)"


section \<open>Collaborators of the auth service\<close>

subsection \<open>Error classification (helper.ts)\<close>

text \<open>
  Modelled from the spec: \<open>src/shared/helper.ts\<close> is not among the sources, only its
  tests are. The spec has the store report a uniqueness violation and a not-found
  condition, each distinguishable from every other error; \<open>helper.spec.ts\<close> fixes them
  as the ORM's known-request error with code \<open>P2002\<close> and \<open>P2025\<close>, and nothing else.
\<close>

fun isUnqueConstraintPrismaError :: "exn \<Rightarrow> bool" where
  "isUnqueConstraintPrismaError (PrismaClientKnownRequestError code) = (code = ''P2002'')"
| "isUnqueConstraintPrismaError _ = False"

fun isNotFoundPrismaError :: "exn \<Rightarrow> bool" where
  "isNotFoundPrismaError (PrismaClientKnownRequestError code) = (code = ''P2025'')"
| "isNotFoundPrismaError _ = False"

subsection \<open>Configuration and the JWT library\<close>

record envConfig =
  ACCESS_TOKEN_SECRET :: string
  ACCESS_TOKEN_EXPIRES_IN :: string
  REFRESH_TOKEN_SECRET :: string
  REFRESH_TOKEN_EXPIRES_IN :: string

text \<open>
  Modelled from the spec: \<open>types/jwt.type.ts\<close> is not among the sources. The spec's
  in-flight token carries the user id, the time of issue and the time of expiry; the
  service reads them as \<open>userId\<close>, \<open>iat\<close> and \<open>exp\<close>, the last two in seconds.
\<close>

record TokenPayload =
  userId :: nat
  iat :: nat
  exp :: nat

text \<open>
  The library behind \<open>JwtService\<close> is a pair of functions. Both read the clock, so the
  clock's value in seconds is their first argument; apart from it \<open>sign\<close> depends on the
  payload (the user id) and on the options \<open>secret\<close>, \<open>expiresIn\<close>, \<open>algorithm\<close>, and
  \<open>verifyAsync\<close> on the token and on the options \<open>secret\<close>, \<open>algorithms\<close>. Either may throw.
  Nothing else enters a signature: the token service passes no \<open>jwtid\<close> and the payload
  holds nothing but the user id, so what \<open>sign\<close> returns is determined by these arguments.
\<close>

record JwtService =
  sign :: "nat \<Rightarrow> nat \<Rightarrow> string \<Rightarrow> string \<Rightarrow> string \<Rightarrow> exn + string"
  verifyAsync :: "nat \<Rightarrow> string \<Rightarrow> string \<Rightarrow> string list \<Rightarrow> exn + TokenPayload"

subsection \<open>Token service (token.service.ts)\<close>

record TokenService =
  jwtService :: JwtService
  config :: envConfig

definition signAccessToken :: "TokenService \<Rightarrow> nat \<Rightarrow> nat \<Rightarrow> exn + string" where
  "signAccessToken this now payload =
     sign (jwtService this) now payload
       (ACCESS_TOKEN_SECRET (config this)) (ACCESS_TOKEN_EXPIRES_IN (config this)) ''HS256''"

definition signRefreshToken :: "TokenService \<Rightarrow> nat \<Rightarrow> nat \<Rightarrow> exn + string" where
  "signRefreshToken this now payload =
     sign (jwtService this) now payload
       (REFRESH_TOKEN_SECRET (config this)) (REFRESH_TOKEN_EXPIRES_IN (config this)) ''HS256''"

definition verifyAccessToken :: "TokenService \<Rightarrow> nat \<Rightarrow> string \<Rightarrow> exn + TokenPayload" where
  "verifyAccessToken this now tok =
     verifyAsync (jwtService this) now tok (ACCESS_TOKEN_SECRET (config this)) [''HS256'']"

definition verifyRefreshToken :: "TokenService \<Rightarrow> nat \<Rightarrow> string \<Rightarrow> exn + TokenPayload" where
  "verifyRefreshToken this now tok =
     verifyAsync (jwtService this) now tok (REFRESH_TOKEN_SECRET (config this)) [''HS256'']"

subsection \<open>Password hasher\<close>

text \<open>
  \<open>HashingService\<close> is injected into the auth service, which calls its two methods
  \<open>hash\<close> and \<open>compare\<close>; each may throw.
\<close>

record HashingService =
  hash :: "string \<Rightarrow> exn + string"
  compare :: "string \<Rightarrow> string \<Rightarrow> exn + bool"

subsection \<open>The ORM client\<close>

record LoginBodyDTO =
  email :: string
  password :: string

record RegisterBodyDTO = LoginBodyDTO +
  name :: string
  confirmPassword :: string

record UserCreateInput =
  email :: string
  password :: string
  name :: string

text \<open>A row of the user table; \<open>user_id\<close> is its column \<open>id\<close>.\<close>

record User =
  user_id :: nat
  email :: string
  name :: string
  password :: string

record RefreshToken =
  token :: string
  userId :: nat
  expiresAt :: nat

text \<open>
  The five calls the auth service makes on \<open>PrismaService\<close>. Each takes the store's
  state \<open>'s\<close> and returns what the awaited promise settles to, with the state it leaves.
  The columns the database fills in by itself (\<open>createdAt\<close>, \<open>updatedAt\<close>) are left out:
  the service neither writes nor reads them.
\<close>

record 's PrismaService =
  user_create :: "UserCreateInput \<Rightarrow> 's \<Rightarrow> (exn + User) \<times> 's"
  user_findUnique :: "string \<Rightarrow> 's \<Rightarrow> (exn + User option) \<times> 's"
  refreshToken_create :: "RefreshToken \<Rightarrow> 's \<Rightarrow> (exn + RefreshToken) \<times> 's"
  refreshToken_findUniqueOrThrow :: "string \<Rightarrow> 's \<Rightarrow> (exn + RefreshToken) \<times> 's"
  refreshToken_delete :: "string \<Rightarrow> 's \<Rightarrow> (exn + RefreshToken) \<times> 's"

section \<open>Auth service (auth.service.ts)\<close>

text \<open>
  The service is its three injected collaborators. A method takes the state of the store
  and returns what its promise settles to together with the state it leaves. The methods
  that sign or verify tokens take the clock \<open>now\<close> (in seconds) of the request.
\<close>

record 's AuthService =
  hashingService :: HashingService
  prismaService :: "'s PrismaService"
  tokenService :: TokenService

record TokenPair =
  accessToken :: string
  refreshToken :: string

text \<open>The body of the \<open>try\<close> block of \<open>register\<close>.\<close>

definition register_try ::
  "'s AuthService \<Rightarrow> RegisterBodyDTO \<Rightarrow> 's \<Rightarrow> (exn + User) \<times> 's" where
  "register_try this body s =
     (case hash (hashingService this) (LoginBodyDTO.password body) of
        Inl e \<Rightarrow> (Inl e, s)
      | Inr hashedPassword \<Rightarrow>
          user_create (prismaService this)
            \<lparr>UserCreateInput.email = LoginBodyDTO.email body,
             UserCreateInput.password = hashedPassword,
             UserCreateInput.name = RegisterBodyDTO.name body\<rparr> s)"

definition register ::
  "'s AuthService \<Rightarrow> RegisterBodyDTO \<Rightarrow> 's \<Rightarrow> (exn + User) \<times> 's" where
  "register this body s =
     (case register_try this body s of
        (Inr user, s') \<Rightarrow> (Inr user, s')
      | (Inl error, s') \<Rightarrow>
          if isUnqueConstraintPrismaError error
          then (Inl (ConflictException ''Email already exists''), s')
          else (Inl error, s'))"

text \<open>
  \<open>generateTokens\<close>. The array literal handed to \<open>Promise.all\<close> calls the two synchronous
  signers from left to right; the freshly signed refresh token is then verified to read
  its \<open>exp\<close>, and \<open>new Date(exp * 1000)\<close> is stored as milliseconds.
\<close>

definition generateTokens ::
  "'s AuthService \<Rightarrow> nat \<Rightarrow> nat \<Rightarrow> 's \<Rightarrow> (exn + TokenPair) \<times> 's" where
  "generateTokens this now payload s =
     (case signAccessToken (tokenService this) now payload of
        Inl e \<Rightarrow> (Inl e, s)
      | Inr accessToken' \<Rightarrow>
     (case signRefreshToken (tokenService this) now payload of
        Inl e \<Rightarrow> (Inl e, s)
      | Inr refreshToken' \<Rightarrow>
     (case verifyRefreshToken (tokenService this) now refreshToken' of
        Inl e \<Rightarrow> (Inl e, s)
      | Inr decodeRefreshToken \<Rightarrow>
     (case refreshToken_create (prismaService this)
             \<lparr>token = refreshToken', userId = payload,
              expiresAt = exp decodeRefreshToken * 1000\<rparr> s of
        (Inl e, s') \<Rightarrow> (Inl e, s')
      | (Inr created, s') \<Rightarrow>
          (Inr \<lparr>accessToken = accessToken', refreshToken = refreshToken'\<rparr>, s')))))"

definition login ::
  "'s AuthService \<Rightarrow> nat \<Rightarrow> LoginBodyDTO \<Rightarrow> 's \<Rightarrow> (exn + TokenPair) \<times> 's" where
  "login this now body s =
     (case user_findUnique (prismaService this) (LoginBodyDTO.email body) s of
        (Inl e, s') \<Rightarrow> (Inl e, s')
      | (Inr None, s') \<Rightarrow> (Inl (UnauthorizedException ''Account does not exist''), s')
      | (Inr (Some user), s') \<Rightarrow>
     (case compare (hashingService this) (LoginBodyDTO.password body) (User.password user) of
        Inl e \<Rightarrow> (Inl e, s')
      | Inr isPasswordMatching \<Rightarrow>
          if \<not> isPasswordMatching
          then (Inl (UnprocessableEntityException [(''password'', ''Incorrect password'')]), s')
          else generateTokens this now (user_id user) s'))"

text \<open>
  The body of the \<open>try\<close> block of \<open>refreshToken\<close>; \<open>presented\<close> is the method's
  argument, the refresh-token string of the request.
\<close>

definition refreshToken_try ::
  "'s AuthService \<Rightarrow> nat \<Rightarrow> string \<Rightarrow> 's \<Rightarrow> (exn + TokenPair) \<times> 's" where
  "refreshToken_try this now presented s =
     (case verifyRefreshToken (tokenService this) now presented of
        Inl e \<Rightarrow> (Inl e, s)
      | Inr decoded \<Rightarrow>
     (case refreshToken_findUniqueOrThrow (prismaService this) presented s of
        (Inl e, s1) \<Rightarrow> (Inl e, s1)
      | (Inr found, s1) \<Rightarrow>
     (case refreshToken_delete (prismaService this) presented s1 of
        (Inl e, s2) \<Rightarrow> (Inl e, s2)
      | (Inr deleted, s2) \<Rightarrow>
          generateTokens this now (TokenPayload.userId decoded) s2)))"

text \<open>The \<open>catch\<close> block of \<open>refreshToken\<close>: what is thrown for a caught \<open>error\<close>.\<close>

definition rethrown :: "exn \<Rightarrow> exn" where
  "rethrown error =
     (if isNotFoundPrismaError error
      then UnauthorizedException ''Refresh token has been revoked''
      else UnauthorizedException_default)"

definition refreshToken ::
  "'s AuthService \<Rightarrow> nat \<Rightarrow> string \<Rightarrow> 's \<Rightarrow> (exn + TokenPair) \<times> 's" where
  "refreshToken this now presented s =
     (case refreshToken_try this now presented s of
        (Inr tokens, s') \<Rightarrow> (Inr tokens, s')
      | (Inl error, s') \<Rightarrow> (Inl (rethrown error), s'))"


section \<open>The database behind the ORM client\<close>

text \<open>
  A reference model of the two tables the service touches, with the behaviour the ORM
  documents for the five calls: \<open>create\<close> fails with \<open>P2002\<close> on a duplicate of a unique
  column (\<open>User.email\<close>, \<open>RefreshToken.token\<close>) and with \<open>P2003\<close> when the owning user
  does not exist; \<open>findUnique\<close> returns null for a missing row; \<open>findUniqueOrThrow\<close> and
  \<open>delete\<close> fail with \<open>P2025\<close> for a missing row. A failed call leaves the tables as
  they were.
\<close>

record Database =
  users :: "User list"
  refreshTokens :: "RefreshToken list"

text \<open>The id the autoincrement column gives the next user: one not yet in the table.\<close>

definition next_user_id :: "Database \<Rightarrow> nat" where
  "next_user_id db = Suc (fold max (map user_id (users db)) 0)"

definition db_user_create :: "UserCreateInput \<Rightarrow> Database \<Rightarrow> (exn + User) \<times> Database" where
  "db_user_create d db =
     (if UserCreateInput.email d \<in> set (map User.email (users db))
      then (Inl (PrismaClientKnownRequestError ''P2002''), db)
      else let user = \<lparr>user_id = next_user_id db,
                       User.email = UserCreateInput.email d,
                       User.name = UserCreateInput.name d,
                       User.password = UserCreateInput.password d\<rparr>
           in (Inr user, db\<lparr>users := users db @ [user]\<rparr>))"

definition db_user_findUnique :: "string \<Rightarrow> Database \<Rightarrow> (exn + User option) \<times> Database" where
  "db_user_findUnique e db = (Inr (find (\<lambda>u. User.email u = e) (users db)), db)"

definition db_refreshToken_create ::
  "RefreshToken \<Rightarrow> Database \<Rightarrow> (exn + RefreshToken) \<times> Database" where
  "db_refreshToken_create row db =
     (if token row \<in> set (map token (refreshTokens db))
      then (Inl (PrismaClientKnownRequestError ''P2002''), db)
      else if userId row \<notin> set (map user_id (users db))
      then (Inl (PrismaClientKnownRequestError ''P2003''), db)
      else (Inr row, db\<lparr>refreshTokens := refreshTokens db @ [row]\<rparr>))"

definition db_refreshToken_findUniqueOrThrow ::
  "string \<Rightarrow> Database \<Rightarrow> (exn + RefreshToken) \<times> Database" where
  "db_refreshToken_findUniqueOrThrow t db =
     (case find (\<lambda>r. token r = t) (refreshTokens db) of
        None \<Rightarrow> (Inl (PrismaClientKnownRequestError ''P2025''), db)
      | Some r \<Rightarrow> (Inr r, db))"

definition db_refreshToken_delete ::
  "string \<Rightarrow> Database \<Rightarrow> (exn + RefreshToken) \<times> Database" where
  "db_refreshToken_delete t db =
     (case find (\<lambda>r. token r = t) (refreshTokens db) of
        None \<Rightarrow> (Inl (PrismaClientKnownRequestError ''P2025''), db)
      | Some r \<Rightarrow>
          (Inr r, db\<lparr>refreshTokens := filter (\<lambda>r. token r \<noteq> t) (refreshTokens db)\<rparr>))"

definition prisma :: "Database PrismaService" where
  "prisma =
     \<lparr>user_create = db_user_create,
      user_findUnique = db_user_findUnique,
      refreshToken_create = db_refreshToken_create,
      refreshToken_findUniqueOrThrow = db_refreshToken_findUniqueOrThrow,
      refreshToken_delete = db_refreshToken_delete\<rparr>"

text \<open>The service wired to this database, with any hasher, JWT library and configuration.\<close>

definition service :: "HashingService \<Rightarrow> JwtService \<Rightarrow> envConfig \<Rightarrow> Database AuthService" where
  "service H J cfg =
     \<lparr>hashingService = H, prismaService = prisma,
      tokenService = \<lparr>jwtService = J, config = cfg\<rparr>\<rparr>"

text \<open>The token strings stored in the refresh-token table.\<close>

definition stored_tokens :: "Database \<Rightarrow> string set" where
  "stored_tokens db = set (map token (refreshTokens db))"

text \<open>The table after the row of a token string has been deleted.\<close>

definition without_token :: "string \<Rightarrow> Database \<Rightarrow> Database" where
  "without_token t db = db\<lparr>refreshTokens := filter (\<lambda>r. token r \<noteq> t) (refreshTokens db)\<rparr>"

text \<open>The table after a row has been inserted.\<close>

definition with_row :: "RefreshToken \<Rightarrow> Database \<Rightarrow> Database" where
  "with_row row db = db\<lparr>refreshTokens := refreshTokens db @ [row]\<rparr>"

text \<open>
  What the service relies on from the JWT library: at clock \<open>now\<close> and with lifetime
  \<open>expiresIn\<close>, signing any user id under any secret gives a token that verifies under
  the same secret to a payload with that user id.
\<close>

definition jwt_round_trip :: "JwtService \<Rightarrow> nat \<Rightarrow> string \<Rightarrow> bool" where
  "jwt_round_trip J now expiresIn =
     (\<forall>uid secret. \<exists>t p.
        sign J now uid secret expiresIn ''HS256'' = Inr t \<and>
        verifyAsync J now t secret [''HS256''] = Inr p \<and>
        TokenPayload.userId p = uid)"

section \<open>A small instance of the collaborators\<close>

text \<open>
  A deterministic stand-in for the JWT library, used to run the service on concrete
  inputs: a token spells out the secret, the user id and the second of issue; it lives
  for \<open>demo_lifetime\<close> seconds. Like an HS256 token without a \<open>jti\<close>, it is a function
  of the payload, the secret and the second it was signed in.
\<close>

definition demo_encode :: "string \<Rightarrow> nat \<Rightarrow> nat \<Rightarrow> string" where
  "demo_encode secret uid issued =
     secret @ ''.'' @ replicate uid (CHR ''u'') @ ''.'' @ replicate issued (CHR ''i'')"

definition demo_lifetime :: nat where
  "demo_lifetime = 3"

definition demo_sign :: "nat \<Rightarrow> nat \<Rightarrow> string \<Rightarrow> string \<Rightarrow> string \<Rightarrow> exn + string" where
  "demo_sign now uid secret expiresIn algorithm = Inr (demo_encode secret uid now)"

definition demo_verifyAsync :: "nat \<Rightarrow> string \<Rightarrow> string \<Rightarrow> string list \<Rightarrow> exn + TokenPayload" where
  "demo_verifyAsync now tok secret algorithms =
     (let body = drop (length secret + 1) tok;
          uid = length (takeWhile (\<lambda>c. c = CHR ''u'') body);
          issued = length (drop (uid + 1) body)
      in if tok \<noteq> demo_encode secret uid issued then Inl (Error ''invalid signature'')
         else if issued + demo_lifetime \<le> now then Inl (Error ''jwt expired'')
         else Inr \<lparr>TokenPayload.userId = uid, iat = issued, exp = issued + demo_lifetime\<rparr>)"

definition demo_jwt :: JwtService where
  "demo_jwt = \<lparr>sign = demo_sign, verifyAsync = demo_verifyAsync\<rparr>"

definition demo_hashing :: HashingService where
  "demo_hashing =
     \<lparr>hash = (\<lambda>plain. Inr (''#'' @ plain)),
      compare = (\<lambda>plain hashed. Inr (hashed = ''#'' @ plain))\<rparr>"

definition demo_config :: envConfig where
  "demo_config =
     \<lparr>ACCESS_TOKEN_SECRET = ''a'', ACCESS_TOKEN_EXPIRES_IN = ''15m'',
      REFRESH_TOKEN_SECRET = ''r'', REFRESH_TOKEN_EXPIRES_IN = ''7d''\<rparr>"

definition demo_service :: "Database AuthService" where
  "demo_service = service demo_hashing demo_jwt demo_config"

text \<open>A database holding one user and no refresh token.\<close>

definition demo_db :: Database where
  "demo_db =
     \<lparr>users = [\<lparr>user_id = 1, User.email = ''u@x.com'', User.name = ''U'',
                 User.password = ''#secret1''\<rparr>],
      refreshTokens = []\<rparr>"

text \<open>The same database after user 1 was issued the refresh token of second 1.\<close>

definition demo_db_issued :: Database where
  "demo_db_issued =
     demo_db\<lparr>refreshTokens := [\<lparr>token = ''r.u.i'', userId = 1, expiresAt = 4000\<rparr>]\<rparr>"

text \<open>The same with a second refresh token of user 1, issued in second 2.\<close>

definition demo_db_two :: Database where
  "demo_db_two =
     demo_db\<lparr>refreshTokens := [\<lparr>token = ''r.u.i'', userId = 1, expiresAt = 4000\<rparr>,
                                 \<lparr>token = ''r.u.ii'', userId = 1, expiresAt = 5000\<rparr>]\<rparr>"

text \<open>The same after the token of second 1 was exchanged in second 2.\<close>

definition demo_db_rotated :: Database where
  "demo_db_rotated =
     demo_db\<lparr>refreshTokens := [\<lparr>token = ''r.u.ii'', userId = 1, expiresAt = 5000\<rparr>]\<rparr>"

text \<open>A client whose \<open>user.create\<close> always fails with an error that is not a known request error.\<close>

definition demo_failing_prisma :: "Database PrismaService" where
  "demo_failing_prisma =
     prisma\<lparr>user_create := (\<lambda>d db. (Inl (Error ''connection lost''), db))\<rparr>"

text \<open>A client whose \<open>user.findUnique\<close> always fails, and a hasher whose \<open>compare\<close> does.\<close>

definition demo_lookup_failing :: "Database PrismaService" where
  "demo_lookup_failing =
     prisma\<lparr>user_findUnique := (\<lambda>e db. (Inl (Error ''connection lost''), db))\<rparr>"

definition demo_compare_failing :: HashingService where
  "demo_compare_failing =
     demo_hashing\<lparr>compare := (\<lambda>plain hashed. Inl (Error ''data and hash arguments required''))\<rparr>"

text \<open>Two registration requests: one for the email already there, one for a new email.\<close>

definition demo_body_taken :: RegisterBodyDTO where
  "demo_body_taken =
     \<lparr>LoginBodyDTO.email = ''u@x.com'', LoginBodyDTO.password = ''secret2'',
      RegisterBodyDTO.name = ''W'', confirmPassword = ''secret2''\<rparr>"

definition demo_body_new :: RegisterBodyDTO where
  "demo_body_new =
     \<lparr>LoginBodyDTO.email = ''v@x.com'', LoginBodyDTO.password = ''secret2'',
      RegisterBodyDTO.name = ''V'', confirmPassword = ''secret2''\<rparr>"

section \<open>Concurrent calls of refreshToken\<close>

text \<open>
  Requests run on one thread and give up control only at an \<open>await\<close>. A call of
  \<open>refreshToken\<close> is therefore a sequence of six uninterrupted pieces, each ending with
  the settling of one awaited promise: the verification of the presented token,
  \<open>findUniqueOrThrow\<close>, \<open>delete\<close>, the two signers under \<open>Promise.all\<close>, the verification
  of the new refresh token, and \<open>create\<close>. \<open>call_state\<close> records where a call stands and
  the local variables it holds there; \<open>Done\<close> holds what the call returned or threw.
\<close>

datatype call_state =
    Start
  | Verified nat
  | Found nat
  | Deleted nat
  | Signed nat string string
  | Decoded nat string string nat
  | Done "exn + TokenPair"

text \<open>The next piece of a call, run on the store as it is at that moment.\<close>

fun resume :: "'s AuthService \<Rightarrow> nat \<Rightarrow> string \<Rightarrow> call_state \<Rightarrow> 's \<Rightarrow> call_state \<times> 's" where
  "resume this now presented Start s =
     (case verifyRefreshToken (tokenService this) now presented of
        Inl e \<Rightarrow> (Done (Inl (rethrown e)), s)
      | Inr decoded \<Rightarrow> (Verified (TokenPayload.userId decoded), s))"
| "resume this now presented (Verified u) s =
     (case refreshToken_findUniqueOrThrow (prismaService this) presented s of
        (Inl e, s') \<Rightarrow> (Done (Inl (rethrown e)), s')
      | (Inr found, s') \<Rightarrow> (Found u, s'))"
| "resume this now presented (Found u) s =
     (case refreshToken_delete (prismaService this) presented s of
        (Inl e, s') \<Rightarrow> (Done (Inl (rethrown e)), s')
      | (Inr deleted, s') \<Rightarrow> (Deleted u, s'))"
| "resume this now presented (Deleted u) s =
     (case signAccessToken (tokenService this) now u of
        Inl e \<Rightarrow> (Done (Inl (rethrown e)), s)
      | Inr accessToken' \<Rightarrow>
     (case signRefreshToken (tokenService this) now u of
        Inl e \<Rightarrow> (Done (Inl (rethrown e)), s)
      | Inr refreshToken' \<Rightarrow> (Signed u accessToken' refreshToken', s)))"
| "resume this now presented (Signed u accessToken' refreshToken') s =
     (case verifyRefreshToken (tokenService this) now refreshToken' of
        Inl e \<Rightarrow> (Done (Inl (rethrown e)), s)
      | Inr decodeRefreshToken \<Rightarrow>
          (Decoded u accessToken' refreshToken' (exp decodeRefreshToken), s))"
| "resume this now presented (Decoded u accessToken' refreshToken' expiry) s =
     (case refreshToken_create (prismaService this)
             \<lparr>token = refreshToken', userId = u, expiresAt = expiry * 1000\<rparr> s of
        (Inl e, s') \<Rightarrow> (Done (Inl (rethrown e)), s')
      | (Inr created, s') \<Rightarrow>
          (Done (Inr \<lparr>accessToken = accessToken', TokenPair.refreshToken = refreshToken'\<rparr>), s'))"
| "resume this now presented (Done result) s = (Done result, s)"

text \<open>
  Several calls with the same presented token share the store. A turn names the call
  that runs its next piece and the clock (in seconds) at that moment; \<open>advance\<close> runs
  one turn. A schedule is a list of turns and \<open>run\<close> follows it: every interleaving of
  the calls, at whatever times, is \<open>run\<close> of some schedule.
\<close>

definition advance ::
  "'s AuthService \<Rightarrow> nat \<Rightarrow> string \<Rightarrow> nat \<Rightarrow> 's \<times> call_state list \<Rightarrow> 's \<times> call_state list" where
  "advance this now presented i cfg =
     (case cfg of (s, calls) \<Rightarrow>
        if i < length calls
        then (case resume this now presented (calls ! i) s of
                (c', s') \<Rightarrow> (s', calls[i := c']))
        else (s, calls))"

fun run ::
  "'s AuthService \<Rightarrow> string \<Rightarrow> (nat \<times> nat) list \<Rightarrow> 's \<times> call_state list \<Rightarrow> 's \<times> call_state list" where
  "run this presented [] cfg = cfg"
| "run this presented ((i, now) # schedule) cfg =
     run this presented schedule (advance this now presented i cfg)"

text \<open>The calls that returned a token pair.\<close>

definition successes :: "call_state list \<Rightarrow> call_state list" where
  "successes calls = filter (\<lambda>c. case c of Done (Inr pair) \<Rightarrow> True | _ \<Rightarrow> False) calls"

text \<open>
  Two calls: both verify and look up, then the first runs to its end, then the second;
  every turn in the given second.
\<close>

definition demo_overtaking :: "nat \<Rightarrow> (nat \<times> nat) list" where
  "demo_overtaking now = map (\<lambda>i. (i, now)) [0, 1, 0, 1, 0, 0, 0, 0, 1, 1, 1, 1]"

text \<open>The same turns, the first call in second 1 and the rest of the second call in second 2.\<close>

definition demo_straddling :: "(nat \<times> nat) list" where
  "demo_straddling =
     [(0, 1), (1, 1), (0, 1), (1, 1), (0, 1), (0, 1), (0, 1), (0, 1),
      (1, 2), (1, 2), (1, 2), (1, 2)]"

section \<open>Auxiliary facts\<close>

lemma and_loop_skip:
  "each_outcome succeeds pre c = Some c1 \<Longrightarrow> and_loop (pre @ rest) err c = and_loop rest err c1"
  by (induction pre arbitrary: c)
     (auto simp: guarded_def succeeds_def split: prod.splits if_splits)

lemma and_loop_grant:
  "and_loop gs err c = (Inr b, c') \<longleftrightarrow> b \<and> each_outcome succeeds gs c = Some c'"
  by (induction gs arbitrary: c err)
     (auto simp: guarded_def succeeds_def split: prod.splits outcome.splits if_splits)

lemma canActivate_And:
  "canActivate gm (Some \<lparr>authTypes = ats, options = \<lparr>condition = And\<rparr>\<rparr>) c
     = and_loop (map gm ats) UnauthorizedException_default c"
  by (simp add: canActivate_def)

lemma demo_round_trip:
  "demo_verifyAsync now (demo_encode secret uid now) secret algs
     = Inr \<lparr>TokenPayload.userId = uid, iat = now, exp = now + demo_lifetime\<rparr>"
  by (simp add: demo_verifyAsync_def demo_encode_def demo_lifetime_def takeWhile_append Let_def)

lemma demo_jwt_round_trip: "jwt_round_trip demo_jwt now e"
  by (simp add: jwt_round_trip_def demo_jwt_def demo_sign_def demo_round_trip)

lemma service_simps [simp]:
  "hashingService (service H J cfg) = H"
  "prismaService (service H J cfg) = prisma"
  "tokenService (service H J cfg) = \<lparr>jwtService = J, config = cfg\<rparr>"
  by (simp_all add: service_def)

lemma prisma_simps [simp]:
  "user_create prisma = db_user_create"
  "user_findUnique prisma = db_user_findUnique"
  "refreshToken_create prisma = db_refreshToken_create"
  "refreshToken_findUniqueOrThrow prisma = db_refreshToken_findUniqueOrThrow"
  "refreshToken_delete prisma = db_refreshToken_delete"
  by (simp_all add: prisma_def)

lemma find_token_None: "find (\<lambda>r. token r = t) rows = None \<longleftrightarrow> t \<notin> set (map token rows)"
  by (induction rows) auto

lemma db_find_present:
  "t \<in> stored_tokens db \<Longrightarrow> \<exists>r. db_refreshToken_findUniqueOrThrow t db = (Inr r, db)"
  by (cases "find (\<lambda>r. token r = t) (refreshTokens db)")
     (simp_all add: db_refreshToken_findUniqueOrThrow_def stored_tokens_def find_token_None del: set_map)

lemma db_delete_present:
  "t \<in> stored_tokens db \<Longrightarrow> \<exists>r. db_refreshToken_delete t db = (Inr r, without_token t db)"
  by (cases "find (\<lambda>r. token r = t) (refreshTokens db)")
     (simp_all add: db_refreshToken_delete_def stored_tokens_def find_token_None without_token_def del: set_map)

lemma stored_tokens_without: "stored_tokens (without_token t db) = stored_tokens db - {t}"
  by (auto simp: stored_tokens_def without_token_def)

lemma users_without [simp]: "users (without_token t db) = users db"
  by (simp add: without_token_def)

lemma db_create_ok:
  "token row \<notin> stored_tokens db \<Longrightarrow> userId row \<in> set (map user_id (users db)) \<Longrightarrow>
     db_refreshToken_create row db = (Inr row, with_row row db)"
  by (simp add: db_refreshToken_create_def stored_tokens_def with_row_def del: set_map)

lemma db_create_failure:
  "db_refreshToken_create row db = (Inl e, db') \<Longrightarrow> db' = db \<and> \<not> isNotFoundPrismaError e"
  by (auto simp: db_refreshToken_create_def split: if_splits)

lemma generateTokens_db_failure:
  "generateTokens (service H J cfg) now uid db = (Inl e, db') \<Longrightarrow> db' = db"
  by (auto simp: generateTokens_def split: sum.splits prod.splits dest: db_create_failure)

lemma refreshToken_catch:
  "refreshToken_try this now t s = (Inl e, s') \<Longrightarrow>
     refreshToken this now t s =
       (Inl (UnauthorizedException
          (if isNotFoundPrismaError e then ''Refresh token has been revoked'' else ''Unauthorized'')), s')"
  by (simp add: refreshToken_def rethrown_def UnauthorizedException_default_def)

lemma refreshToken_try_db:
  "verifyRefreshToken \<lparr>jwtService = J, config = cfg\<rparr> now presented = Inr decoded \<Longrightarrow>
   presented \<in> stored_tokens db \<Longrightarrow>
   refreshToken_try (service H J cfg) now presented db =
     generateTokens (service H J cfg) now (TokenPayload.userId decoded) (without_token presented db)"
  using db_find_present [of presented db] db_delete_present [of presented db]
  by (auto simp: refreshToken_try_def)

lemma generateTokens_db_ok:
  "signAccessToken \<lparr>jwtService = J, config = cfg\<rparr> now uid = Inr a \<Longrightarrow>
   signRefreshToken \<lparr>jwtService = J, config = cfg\<rparr> now uid = Inr r \<Longrightarrow>
   verifyRefreshToken \<lparr>jwtService = J, config = cfg\<rparr> now r = Inr d \<Longrightarrow>
   r \<notin> stored_tokens db \<Longrightarrow> uid \<in> set (map user_id (users db)) \<Longrightarrow>
   generateTokens (service H J cfg) now uid db =
     (Inr \<lparr>accessToken = a, TokenPair.refreshToken = r\<rparr>,
      with_row \<lparr>token = r, userId = uid, expiresAt = exp d * 1000\<rparr> db)"
  by (simp add: generateTokens_def db_create_ok del: set_map)

lemma generateTokens_db_duplicate:
  "signAccessToken \<lparr>jwtService = J, config = cfg\<rparr> now uid = Inr a \<Longrightarrow>
   signRefreshToken \<lparr>jwtService = J, config = cfg\<rparr> now uid = Inr r \<Longrightarrow>
   verifyRefreshToken \<lparr>jwtService = J, config = cfg\<rparr> now r = Inr d \<Longrightarrow>
   r \<in> stored_tokens db \<Longrightarrow>
   generateTokens (service H J cfg) now uid db =
     (Inl (PrismaClientKnownRequestError ''P2002''), db)"
  by (simp add: generateTokens_def db_refreshToken_create_def stored_tokens_def del: set_map)

lemma find_appended:
  "\<forall>x\<in>set xs. \<not> P x \<Longrightarrow> P y \<Longrightarrow> find P (xs @ [y]) = Some y"
  by (induction xs) auto

lemma token_service_round_trip:
  assumes "jwt_round_trip J now (ACCESS_TOKEN_EXPIRES_IN cfg)"
    and "jwt_round_trip J now (REFRESH_TOKEN_EXPIRES_IN cfg)"
  shows "\<exists>a r pa pr.
      signAccessToken \<lparr>jwtService = J, config = cfg\<rparr> now uid = Inr a \<and>
      verifyAccessToken \<lparr>jwtService = J, config = cfg\<rparr> now a = Inr pa \<and>
      TokenPayload.userId pa = uid \<and>
      signRefreshToken \<lparr>jwtService = J, config = cfg\<rparr> now uid = Inr r \<and>
      verifyRefreshToken \<lparr>jwtService = J, config = cfg\<rparr> now r = Inr pr \<and>
      TokenPayload.userId pr = uid"
proof -
  from assms(1) obtain a pa where
    "sign J now uid (ACCESS_TOKEN_SECRET cfg) (ACCESS_TOKEN_EXPIRES_IN cfg) ''HS256'' = Inr a"
    "verifyAsync J now a (ACCESS_TOKEN_SECRET cfg) [''HS256''] = Inr pa"
    "TokenPayload.userId pa = uid"
    unfolding jwt_round_trip_def by blast
  moreover from assms(2) obtain r pr where
    "sign J now uid (REFRESH_TOKEN_SECRET cfg) (REFRESH_TOKEN_EXPIRES_IN cfg) ''HS256'' = Inr r"
    "verifyAsync J now r (REFRESH_TOKEN_SECRET cfg) [''HS256''] = Inr pr"
    "TokenPayload.userId pr = uid"
    unfolding jwt_round_trip_def by blast
  ultimately show ?thesis
    by (simp add: signAccessToken_def verifyAccessToken_def signRefreshToken_def
        verifyRefreshToken_def)
qed

lemma replicate_numeral: "replicate (numeral k) x = x # replicate (pred_numeral k) x"
  by (simp add: numeral_eq_Suc)

lemmas demo_defs =
  demo_service_def service_def demo_jwt_def demo_sign_def demo_verifyAsync_def demo_encode_def
  demo_lifetime_def demo_config_def demo_hashing_def demo_db_def demo_db_issued_def
  demo_db_two_def demo_db_rotated_def demo_failing_prisma_def demo_body_taken_def
  demo_lookup_failing_def demo_compare_failing_def
  demo_body_new_def replicate_numeral

lemmas service_defs =
  signAccessToken_def signRefreshToken_def verifyAccessToken_def verifyRefreshToken_def
  register_def register_try_def login_def generateTokens_def refreshToken_def rethrown_def
  refreshToken_try_def prisma_def db_user_create_def db_user_findUnique_def
  db_refreshToken_create_def db_refreshToken_findUniqueOrThrow_def db_refreshToken_delete_def
  next_user_id_def stored_tokens_def without_token_def with_row_def
  UnauthorizedException_default_def Let_def

lemma run_alone:
  "run this presented [(0, now), (0, now), (0, now), (0, now), (0, now), (0, now)] (s, [Start])
     = (snd (refreshToken this now presented s), [Done (fst (refreshToken this now presented s))])"
  by (simp add: advance_def refreshToken_def refreshToken_try_def generateTokens_def
      split: sum.splits prod.splits)

section \<open>The claims\<close>

subsection \<open>C1: a refresh token exchanged in the second it was issued in\<close>

text \<open>
  Claim C1 at the input where the code departs from it. The token \<open>r.u.i\<close> is issued to
  user 1 in second 1. Exchanged in that same second, the row is deleted and the signer
  returns the same string, which is stored again: the call returns that string and the
  table is as before. A second call with the identical string, here in second 2, then
  succeeds as well instead of being refused as reuse. For comparison: after that exchange
  in second 2, whose replacement is a different string, a third call with the token is
  refused with \<open>UnauthorizedException('Refresh token has been revoked')\<close>.
\<close>

theorem refreshToken_same_second:
  "generateTokens demo_service 1 1 demo_db
     = (Inr \<lparr>accessToken = ''a.u.i'', TokenPair.refreshToken = ''r.u.i''\<rparr>, demo_db_issued)
   \<and> refreshToken demo_service 1 ''r.u.i'' demo_db_issued
     = (Inr \<lparr>accessToken = ''a.u.i'', TokenPair.refreshToken = ''r.u.i''\<rparr>, demo_db_issued)
   \<and> refreshToken demo_service 2 ''r.u.i'' demo_db_issued
     = (Inr \<lparr>accessToken = ''a.u.ii'', TokenPair.refreshToken = ''r.u.ii''\<rparr>, demo_db_rotated)
   \<and> refreshToken demo_service 3 ''r.u.i'' demo_db_rotated
     = (Inl (UnauthorizedException ''Refresh token has been revoked''), demo_db_rotated)"
  by (simp add: demo_defs service_defs)

subsection \<open>C2: concurrent calls with the same token\<close>

text \<open>
  Claim C2 at the input where the code departs from it. A call given its six turns
  alone, all in one second, returns or throws what \<open>refreshToken\<close> does and leaves the
  same store. Two calls present the token \<open>r.u.i\<close> in second 1, the second it was issued
  in: both verify and find the row, the first deletes it and stores the same string
  again, and the second call's \<open>delete\<close> finds that row: both return a pair. The same
  happens when the second call deletes and signs only in second 2. For comparison, the
  same interleaving entirely in second 2: the first call's replacement is a different
  string, the second call's \<open>delete\<close> fails on the missing row, and that call is refused
  with the revoked error.
\<close>

theorem concurrent_refresh_same_second:
  "run this presented [(0, now), (0, now), (0, now), (0, now), (0, now), (0, now)] (s, [Start])
     = (snd (refreshToken this now presented s), [Done (fst (refreshToken this now presented s))])
   \<and> generateTokens demo_service 1 1 demo_db
     = (Inr \<lparr>accessToken = ''a.u.i'', TokenPair.refreshToken = ''r.u.i''\<rparr>, demo_db_issued)
   \<and> run demo_service ''r.u.i'' (demo_overtaking 1) (demo_db_issued, replicate 2 Start)
      = (demo_db_issued,
         [Done (Inr \<lparr>accessToken = ''a.u.i'', TokenPair.refreshToken = ''r.u.i''\<rparr>),
          Done (Inr \<lparr>accessToken = ''a.u.i'', TokenPair.refreshToken = ''r.u.i''\<rparr>)])
   \<and> length (successes
        [Done (Inr \<lparr>accessToken = ''a.u.i'', TokenPair.refreshToken = ''r.u.i''\<rparr>),
         Done (Inr \<lparr>accessToken = ''a.u.i'', TokenPair.refreshToken = ''r.u.i''\<rparr>)]) = 2
   \<and> run demo_service ''r.u.i'' demo_straddling (demo_db_issued, replicate 2 Start)
      = (demo_db_rotated,
         [Done (Inr \<lparr>accessToken = ''a.u.i'', TokenPair.refreshToken = ''r.u.i''\<rparr>),
          Done (Inr \<lparr>accessToken = ''a.u.ii'', TokenPair.refreshToken = ''r.u.ii''\<rparr>)])
   \<and> run demo_service ''r.u.i'' (demo_overtaking 2) (demo_db_issued, replicate 2 Start)
      = (demo_db_rotated,
         [Done (Inr \<lparr>accessToken = ''a.u.ii'', TokenPair.refreshToken = ''r.u.ii''\<rparr>),
          Done (Inl (UnauthorizedException ''Refresh token has been revoked''))])"
  using run_alone [of this presented now s]
  by (simp add: demo_defs service_defs demo_overtaking_def demo_straddling_def advance_def
        successes_def)

subsection \<open>C3: an unverifiable token never reaches the store\<close>

text \<open>
  Claim C3. If verification of the presented token throws, \<open>refreshToken\<close> throws an
  \<open>UnauthorizedException\<close> and returns the state of the store it was given, and this
  for every implementation of the five store calls: none of them is run. (The message is
  the default one unless the thrown value is itself a not-found error of the ORM.)
\<close>

theorem refreshToken_unverified:
  "verifyRefreshToken (tokenService this) now presented = Inl e \<Longrightarrow>
     refreshToken this now presented s =
       (Inl (UnauthorizedException
          (if isNotFoundPrismaError e then ''Refresh token has been revoked'' else ''Unauthorized'')), s)"
  by (rule refreshToken_catch) (simp add: refreshToken_try_def)

text \<open>
  C3, witness: an expired token presented while its row is still stored.
\<close>

theorem refreshToken_unverified_witness:
  "verifyRefreshToken (tokenService demo_service) 4 ''r.u.i'' = Inl (Error ''jwt expired'')
   \<and> refreshToken demo_service 4 ''r.u.i'' demo_db_issued
       = (Inl (UnauthorizedException ''Unauthorized''), demo_db_issued)"
  using refreshToken_unverified
          [of demo_service 4 "''r.u.i''" "Error ''jwt expired''" demo_db_issued]
  by (simp add: demo_defs verifyRefreshToken_def)

subsection \<open>C4: what generateTokens persists\<close>



subsection \<open>C5: registration errors\<close>

text \<open>
  Claim C5. When the password was hashed and \<open>user.create\<close> throws \<open>e\<close>, \<open>register\<close>
  throws \<open>ConflictException('Email already exists')\<close> if \<open>e\<close> is a unique-constraint
  error and \<open>e\<close> itself otherwise, in the state \<open>user.create\<close> left. On the database
  model, registering an email that is already there throws the conflict and leaves the
  database as it was.
\<close>

theorem register_conflict:
  "(hash (hashingService this) (LoginBodyDTO.password body) = Inr h \<and>
    user_create (prismaService this)
      \<lparr>UserCreateInput.email = LoginBodyDTO.email body, UserCreateInput.password = h,
       UserCreateInput.name = RegisterBodyDTO.name body\<rparr> s = (Inl e, s') \<longrightarrow>
      register this body s =
        (Inl (if isUnqueConstraintPrismaError e then ConflictException ''Email already exists''
              else e), s'))
   \<and> (hash H (LoginBodyDTO.password body) = Inr h \<and>
      LoginBodyDTO.email body \<in> set (map User.email (users db)) \<longrightarrow>
      register (service H J cfg) body db = (Inl (ConflictException ''Email already exists''), db))"
  by (simp add: register_def register_try_def db_user_create_def del: set_map)

text \<open>
  C5, witness: the email of user 1 again; and a new email on a client that lost its
  connection.
\<close>

theorem register_conflict_witness:
  "register demo_service demo_body_taken demo_db
     = (Inl (ConflictException ''Email already exists''), demo_db)
   \<and> register (demo_service\<lparr>prismaService := demo_failing_prisma\<rparr>) demo_body_new demo_db
     = (Inl (Error ''connection lost''), demo_db)"
  using register_conflict
          [where this = demo_service and body = demo_body_taken and h = "''#secret2''"
             and s = demo_db and s' = demo_db and e = "PrismaClientKnownRequestError ''P2002''"
             and H = demo_hashing and J = demo_jwt and cfg = demo_config and db = demo_db]
        register_conflict
          [where this = "demo_service\<lparr>prismaService := demo_failing_prisma\<rparr>"
             and body = demo_body_new and h = "''#secret2''"
             and s = demo_db and s' = demo_db and e = "Error ''connection lost''"]
  by (simp add: demo_defs service_defs)

subsection \<open>C6: the two checks of login\<close>

text \<open>
  Claim C6. If the lookup by email returns null, \<open>login\<close> throws
  \<open>UnauthorizedException('Account does not exist')\<close>. If it returns a user and the hash
  comparison is false, \<open>login\<close> throws the \<open>UnprocessableEntityException\<close> for the field
  \<open>password\<close>, in the state the lookup left. If the comparison is true, \<open>login\<close> is
  \<open>generateTokens\<close> for that user's id; and whenever \<open>login\<close> returns a pair, the lookup
  found a user, the comparison was true and \<open>generateTokens\<close> returned that pair. If the
  lookup or the comparison throws, \<open>login\<close> throws the same, again in the state the lookup
  left. On the database model both failed checks leave the database, and so the
  refresh-token table, unchanged.
\<close>

theorem login_checks:
  "(user_findUnique (prismaService this) (LoginBodyDTO.email body) s = (Inr None, s') \<longrightarrow>
      login this now body s = (Inl (UnauthorizedException ''Account does not exist''), s'))
   \<and> (user_findUnique (prismaService this) (LoginBodyDTO.email body) s = (Inr (Some user), s') \<and>
      compare (hashingService this) (LoginBodyDTO.password body) (User.password user) = Inr False \<longrightarrow>
      login this now body s =
        (Inl (UnprocessableEntityException [(''password'', ''Incorrect password'')]), s'))
   \<and> (user_findUnique (prismaService this) (LoginBodyDTO.email body) s = (Inr (Some user), s') \<and>
      compare (hashingService this) (LoginBodyDTO.password body) (User.password user) = Inr True \<longrightarrow>
      login this now body s = generateTokens this now (user_id user) s')
   \<and> (login this now body s = (Inr pair, s'') \<longrightarrow>
      (\<exists>u s1. user_findUnique (prismaService this) (LoginBodyDTO.email body) s = (Inr (Some u), s1) \<and>
          compare (hashingService this) (LoginBodyDTO.password body) (User.password u) = Inr True \<and>
          generateTokens this now (user_id u) s1 = (Inr pair, s'')))
   \<and> (user_findUnique (prismaService this) (LoginBodyDTO.email body) s = (Inl e, s') \<longrightarrow>
      login this now body s = (Inl e, s'))
   \<and> (user_findUnique (prismaService this) (LoginBodyDTO.email body) s = (Inr (Some user), s') \<and>
      compare (hashingService this) (LoginBodyDTO.password body) (User.password user) = Inl e \<longrightarrow>
      login this now body s = (Inl e, s'))
   \<and> (find (\<lambda>u. User.email u = LoginBodyDTO.email body) (users db) = None \<longrightarrow>
      login (service H J cfg) now body db
        = (Inl (UnauthorizedException ''Account does not exist''), db))
   \<and> (find (\<lambda>u. User.email u = LoginBodyDTO.email body) (users db) = Some user \<and>
      compare H (LoginBodyDTO.password body) (User.password user) = Inr False \<longrightarrow>
      login (service H J cfg) now body db
        = (Inl (UnprocessableEntityException [(''password'', ''Incorrect password'')]), db))"
proof (intro conjI impI)
  assume "login this now body s = (Inr pair, s'')"
  then show "\<exists>u s1. user_findUnique (prismaService this) (LoginBodyDTO.email body) s = (Inr (Some u), s1) \<and>
          compare (hashingService this) (LoginBodyDTO.password body) (User.password u) = Inr True \<and>
          generateTokens this now (user_id u) s1 = (Inr pair, s'')"
    by (auto simp: login_def split: sum.splits prod.splits option.splits if_splits)
qed (simp_all add: login_def db_user_findUnique_def)

text \<open>
  C6, witness: an unknown email, a wrong password and the right password for user 1;
  then a lookup that throws and a comparison that throws.
\<close>

theorem login_checks_witness:
  "login demo_service 1
      \<lparr>LoginBodyDTO.email = ''nobody@x.com'', LoginBodyDTO.password = ''secret1''\<rparr> demo_db
     = (Inl (UnauthorizedException ''Account does not exist''), demo_db)
   \<and> login demo_service 1
      \<lparr>LoginBodyDTO.email = ''u@x.com'', LoginBodyDTO.password = ''wrong1''\<rparr> demo_db
     = (Inl (UnprocessableEntityException [(''password'', ''Incorrect password'')]), demo_db)
   \<and> refreshTokens demo_db = []
   \<and> login demo_service 1
      \<lparr>LoginBodyDTO.email = ''u@x.com'', LoginBodyDTO.password = ''secret1''\<rparr> demo_db
     = generateTokens demo_service 1 1 demo_db
   \<and> login demo_service 1
      \<lparr>LoginBodyDTO.email = ''u@x.com'', LoginBodyDTO.password = ''secret1''\<rparr> demo_db
     = (Inr \<lparr>accessToken = ''a.u.i'', TokenPair.refreshToken = ''r.u.i''\<rparr>, demo_db_issued)
   \<and> login (demo_service\<lparr>prismaService := demo_lookup_failing\<rparr>) 1
      \<lparr>LoginBodyDTO.email = ''u@x.com'', LoginBodyDTO.password = ''secret1''\<rparr> demo_db
     = (Inl (Error ''connection lost''), demo_db)
   \<and> login (demo_service\<lparr>hashingService := demo_compare_failing\<rparr>) 1
      \<lparr>LoginBodyDTO.email = ''u@x.com'', LoginBodyDTO.password = ''secret1''\<rparr> demo_db
     = (Inl (Error ''data and hash arguments required''), demo_db)"
  using login_checks
          [where this = demo_service and now = 1 and s = demo_db and s' = demo_db
             and body = "\<lparr>LoginBodyDTO.email = ''nobody@x.com'', LoginBodyDTO.password = ''secret1''\<rparr>"
             and H = demo_hashing and J = demo_jwt and cfg = demo_config and db = demo_db]
        login_checks
          [where this = demo_service and now = 1 and s = demo_db and s' = demo_db
             and body = "\<lparr>LoginBodyDTO.email = ''u@x.com'', LoginBodyDTO.password = ''wrong1''\<rparr>"
             and user = "\<lparr>user_id = 1, User.email = ''u@x.com'', User.name = ''U'',
                           User.password = ''#secret1''\<rparr>"
             and H = demo_hashing and J = demo_jwt and cfg = demo_config and db = demo_db]
        login_checks
          [where this = demo_service and now = 1 and s = demo_db and s' = demo_db
             and body = "\<lparr>LoginBodyDTO.email = ''u@x.com'', LoginBodyDTO.password = ''secret1''\<rparr>"
             and user = "\<lparr>user_id = 1, User.email = ''u@x.com'', User.name = ''U'',
                           User.password = ''#secret1''\<rparr>"
             and pair = "\<lparr>accessToken = ''a.u.i'', TokenPair.refreshToken = ''r.u.i''\<rparr>"
             and s'' = demo_db_issued]
        login_checks
          [where this = "demo_service\<lparr>prismaService := demo_lookup_failing\<rparr>"
             and now = 1 and s = demo_db and s' = demo_db
             and body = "\<lparr>LoginBodyDTO.email = ''u@x.com'', LoginBodyDTO.password = ''secret1''\<rparr>"
             and e = "Error ''connection lost''"]
        login_checks
          [where this = "demo_service\<lparr>hashingService := demo_compare_failing\<rparr>"
             and now = 1 and s = demo_db and s' = demo_db
             and body = "\<lparr>LoginBodyDTO.email = ''u@x.com'', LoginBodyDTO.password = ''secret1''\<rparr>"
             and user = "\<lparr>user_id = 1, User.email = ''u@x.com'', User.name = ''U'',
                           User.password = ''#secret1''\<rparr>"
             and e = "Error ''data and hash arguments required''"]
  by (simp add: demo_defs service_defs)

subsection \<open>C7: register, login, verify\<close>

text \<open>
  Claim C7. Let the email be new, let the hasher hash the password to something it
  compares equal to that password, let the JWT library round-trip at the time of the
  login for both configured lifetimes, and let the refresh token signed for the new user
  not be stored already. Then \<open>register\<close> returns a user, \<open>login\<close> with the same email
  and password on the resulting database returns a pair, and \<open>verifyAccessToken\<close> of its
  access token and \<open>verifyRefreshToken\<close> of its refresh token each return a payload
  whose \<open>userId\<close> is the id of the registered user.
\<close>

theorem register_login_round_trip:
  "LoginBodyDTO.email body \<notin> set (map User.email (users db)) \<and>
   hash H (LoginBodyDTO.password body) = Inr h \<and>
   compare H (LoginBodyDTO.password body) h = Inr True \<and>
   jwt_round_trip J now (ACCESS_TOKEN_EXPIRES_IN cfg) \<and>
   jwt_round_trip J now (REFRESH_TOKEN_EXPIRES_IN cfg) \<and>
   (\<forall>r. signRefreshToken \<lparr>jwtService = J, config = cfg\<rparr> now (next_user_id db) = Inr r
        \<longrightarrow> r \<notin> stored_tokens db)
   \<longrightarrow>
   (\<exists>user db1 pair db2 pa pr.
      register (service H J cfg) body db = (Inr user, db1) \<and>
      login (service H J cfg) now
        \<lparr>LoginBodyDTO.email = LoginBodyDTO.email body,
         LoginBodyDTO.password = LoginBodyDTO.password body\<rparr> db1 = (Inr pair, db2) \<and>
      verifyAccessToken \<lparr>jwtService = J, config = cfg\<rparr> now (accessToken pair) = Inr pa \<and>
      TokenPayload.userId pa = user_id user \<and>
      verifyRefreshToken \<lparr>jwtService = J, config = cfg\<rparr> now (TokenPair.refreshToken pair) = Inr pr \<and>
      TokenPayload.userId pr = user_id user)"
proof (intro impI, elim conjE)
  let ?T = "\<lparr>jwtService = J, config = cfg\<rparr>"
  let ?user = "\<lparr>user_id = next_user_id db, User.email = LoginBodyDTO.email body,
                User.name = RegisterBodyDTO.name body, User.password = h\<rparr>"
  let ?db1 = "db\<lparr>users := users db @ [?user]\<rparr>"
  assume new: "LoginBodyDTO.email body \<notin> set (map User.email (users db))"
    and hs: "hash H (LoginBodyDTO.password body) = Inr h"
    and cmp: "compare H (LoginBodyDTO.password body) h = Inr True"
    and rta: "jwt_round_trip J now (ACCESS_TOKEN_EXPIRES_IN cfg)"
    and rtr: "jwt_round_trip J now (REFRESH_TOKEN_EXPIRES_IN cfg)"
    and fresh: "\<forall>r. signRefreshToken ?T now (next_user_id db) = Inr r \<longrightarrow> r \<notin> stored_tokens db"
  from new hs have reg: "register (service H J cfg) body db = (Inr ?user, ?db1)"
    by (simp add: register_def register_try_def db_user_create_def Let_def del: set_map)
  from new have "find (\<lambda>u. User.email u = LoginBodyDTO.email body) (users db @ [?user]) = Some ?user"
    by (intro find_appended) force+
  then have found: "db_user_findUnique (LoginBodyDTO.email body) ?db1 = (Inr (Some ?user), ?db1)"
    by (simp add: db_user_findUnique_def)
  from token_service_round_trip [OF rta rtr, of "next_user_id db"]
  obtain a r pa pr where
    sa: "signAccessToken ?T now (next_user_id db) = Inr a"
    and va: "verifyAccessToken ?T now a = Inr pa" "TokenPayload.userId pa = next_user_id db"
    and sr: "signRefreshToken ?T now (next_user_id db) = Inr r"
    and vr: "verifyRefreshToken ?T now r = Inr pr" "TokenPayload.userId pr = next_user_id db"
    by blast
  from fresh sr have "r \<notin> stored_tokens ?db1"
    by (simp add: stored_tokens_def)
  with sa sr vr(1)
  have gen: "generateTokens (service H J cfg) now (next_user_id db) ?db1 =
     (Inr \<lparr>accessToken = a, TokenPair.refreshToken = r\<rparr>,
      with_row \<lparr>token = r, userId = next_user_id db, expiresAt = exp pr * 1000\<rparr> ?db1)"
    by (intro generateTokens_db_ok) simp_all
  from found cmp gen
  have "login (service H J cfg) now
        \<lparr>LoginBodyDTO.email = LoginBodyDTO.email body,
         LoginBodyDTO.password = LoginBodyDTO.password body\<rparr> ?db1 =
     (Inr \<lparr>accessToken = a, TokenPair.refreshToken = r\<rparr>,
      with_row \<lparr>token = r, userId = next_user_id db, expiresAt = exp pr * 1000\<rparr> ?db1)"
    by (simp add: login_def)
  with reg va vr show "\<exists>user db1 pair db2 pa pr.
      register (service H J cfg) body db = (Inr user, db1) \<and>
      login (service H J cfg) now
        \<lparr>LoginBodyDTO.email = LoginBodyDTO.email body,
         LoginBodyDTO.password = LoginBodyDTO.password body\<rparr> db1 = (Inr pair, db2) \<and>
      verifyAccessToken ?T now (accessToken pair) = Inr pa \<and>
      TokenPayload.userId pa = user_id user \<and>
      verifyRefreshToken ?T now (TokenPair.refreshToken pair) = Inr pr \<and>
      TokenPayload.userId pr = user_id user"
    by (intro exI [of _ ?user] exI [of _ ?db1] exI [of _ "\<lparr>accessToken = a, TokenPair.refreshToken = r\<rparr>"]
        exI [of _ "with_row \<lparr>token = r, userId = next_user_id db, expiresAt = exp pr * 1000\<rparr> ?db1"]
        exI [of _ pa] exI [of _ pr]) simp
qed

text \<open>
  C7, witness: a second user registers and logs in in second 1.
\<close>

theorem register_login_round_trip_witness:
  "LoginBodyDTO.email demo_body_new \<notin> set (map User.email (users demo_db))
   \<and> hash demo_hashing (LoginBodyDTO.password demo_body_new) = Inr ''#secret2''
   \<and> compare demo_hashing (LoginBodyDTO.password demo_body_new) ''#secret2'' = Inr True
   \<and> jwt_round_trip demo_jwt 1 (ACCESS_TOKEN_EXPIRES_IN demo_config)
   \<and> jwt_round_trip demo_jwt 1 (REFRESH_TOKEN_EXPIRES_IN demo_config)
   \<and> (\<exists>user db1 pair db2 pa pr.
        register demo_service demo_body_new demo_db = (Inr user, db1) \<and>
        login demo_service 1
          \<lparr>LoginBodyDTO.email = LoginBodyDTO.email demo_body_new,
           LoginBodyDTO.password = LoginBodyDTO.password demo_body_new\<rparr> db1 = (Inr pair, db2) \<and>
        verifyAccessToken (tokenService demo_service) 1 (accessToken pair) = Inr pa \<and>
        TokenPayload.userId pa = user_id user \<and>
        verifyRefreshToken (tokenService demo_service) 1 (TokenPair.refreshToken pair) = Inr pr \<and>
        TokenPayload.userId pr = user_id user)"
proof -
  have new: "LoginBodyDTO.email demo_body_new \<notin> set (map User.email (users demo_db))"
    by (simp add: demo_defs)
  have hs: "hash demo_hashing (LoginBodyDTO.password demo_body_new) = Inr ''#secret2''"
    and cmp: "compare demo_hashing (LoginBodyDTO.password demo_body_new) ''#secret2'' = Inr True"
    by (simp_all add: demo_defs)
  have rt: "jwt_round_trip demo_jwt 1 (ACCESS_TOKEN_EXPIRES_IN demo_config)"
    "jwt_round_trip demo_jwt 1 (REFRESH_TOKEN_EXPIRES_IN demo_config)"
    by (rule demo_jwt_round_trip)+
  have fresh: "\<forall>r. signRefreshToken \<lparr>jwtService = demo_jwt, config = demo_config\<rparr> 1
                      (next_user_id demo_db) = Inr r \<longrightarrow> r \<notin> stored_tokens demo_db"
    by (simp add: demo_defs stored_tokens_def)
  from register_login_round_trip
         [where body = demo_body_new and db = demo_db and H = demo_hashing and h = "''#secret2''"
            and J = demo_jwt and now = 1 and cfg = demo_config]
       new hs cmp rt fresh
  show ?thesis
    by (simp add: demo_service_def service_def)
qed

subsection \<open>C8: strategies combined with And\<close>

text \<open>
  Claim C8, for a route declared with condition \<open>And\<close>. If the strategies before \<open>a\<close>
  succeed in order and \<open>a\<close> throws \<open>e\<close>, or returns a promise that rejects with \<open>e\<close>,
  \<open>canActivate\<close> throws \<open>e\<close> and the context is the one \<open>a\<close> left, whatever strategies
  follow: they are not run. If \<open>a\<close> returns false instead, the exception is the default
  \<open>UnauthorizedException\<close>. \<open>canActivate\<close> returns a value exactly when every strategy
  succeeds in order, and the value is true. In particular, with a bearer guard that
  fails, \<open>Auth([Bearer, APIKey])\<close> is refused with the context the bearer guard left,
  whatever the API-key guard would do.
\<close>

theorem canActivate_and_mode:
  "(each_outcome succeeds (map gm pre) c = Some c1 \<and> gm a c1 = (Throws e, c2) \<longrightarrow>
      canActivate gm (Some \<lparr>authTypes = pre @ a # post, options = \<lparr>condition = And\<rparr>\<rparr>) c
        = (Inl e, c2))
   \<and> (each_outcome succeeds (map gm pre) c = Some c1 \<and> gm a c1 = (Rejects e, c2) \<longrightarrow>
      canActivate gm (Some \<lparr>authTypes = pre @ a # post, options = \<lparr>condition = And\<rparr>\<rparr>) c
        = (Inl e, c2))
   \<and> (each_outcome succeeds (map gm pre) c = Some c1 \<and> gm a c1 = (Returns False, c2) \<longrightarrow>
      canActivate gm (Some \<lparr>authTypes = pre @ a # post, options = \<lparr>condition = And\<rparr>\<rparr>) c
        = (Inl UnauthorizedException_default, c2))
   \<and> (canActivate gm (Some \<lparr>authTypes = ats, options = \<lparr>condition = And\<rparr>\<rparr>) c = (Inr b, c')
        \<longleftrightarrow> b \<and> each_outcome succeeds (map gm ats) c = Some c')
   \<and> (fails (fst (bearer c)) \<longrightarrow>
        (\<exists>err. canActivate (authTypeGuardMap bearer apiKey) (Some (Auth [Bearer, APIKey] None)) c
                 = (Inl err, snd (bearer c))))"
proof (intro conjI impI)
  assume "each_outcome succeeds (map gm pre) c = Some c1 \<and> gm a c1 = (Throws e, c2)"
  then show "canActivate gm (Some \<lparr>authTypes = pre @ a # post, options = \<lparr>condition = And\<rparr>\<rparr>) c
        = (Inl e, c2)"
    by (simp add: canActivate_And and_loop_skip guarded_def)
next
  assume "each_outcome succeeds (map gm pre) c = Some c1 \<and> gm a c1 = (Rejects e, c2)"
  then show "canActivate gm (Some \<lparr>authTypes = pre @ a # post, options = \<lparr>condition = And\<rparr>\<rparr>) c
        = (Inl e, c2)"
    by (simp add: canActivate_And and_loop_skip guarded_def)
next
  assume "each_outcome succeeds (map gm pre) c = Some c1 \<and> gm a c1 = (Returns False, c2)"
  then show "canActivate gm (Some \<lparr>authTypes = pre @ a # post, options = \<lparr>condition = And\<rparr>\<rparr>) c
        = (Inl UnauthorizedException_default, c2)"
    by (simp add: canActivate_And and_loop_skip guarded_def)
next
  show "canActivate gm (Some \<lparr>authTypes = ats, options = \<lparr>condition = And\<rparr>\<rparr>) c = (Inr b, c')
        \<longleftrightarrow> b \<and> each_outcome succeeds (map gm ats) c = Some c'"
    by (simp add: canActivate_And and_loop_grant)
next
  assume "fails (fst (bearer c))"
  then show "\<exists>err. canActivate (authTypeGuardMap bearer apiKey) (Some (Auth [Bearer, APIKey] None)) c
                 = (Inl err, snd (bearer c))"
    by (cases "bearer c")
       (auto simp: Auth_def canActivate_And guarded_def fails_def split: outcome.splits)
qed

text \<open>
  C8, witness: guards that append their name to a log. The bearer guard, second of
  three, rejects, throws or returns false; the log shows that the third strategy was not
  called. And the route \<open>Auth([Bearer, APIKey], And)\<close> with the API-key guard of the
  repository: refused with the bearer guard's error when that guard rejects and the key
  is right, and with the API-key guard's error when the bearer guard passes and the key
  is wrong.
\<close>

theorem canActivate_and_mode_witness:
  "each_outcome succeeds
      (map (authTypeGuardMap (\<lambda>log. (Rejects (Error ''jwt expired''), log @ [Bearer]))
                             (\<lambda>log. (Returns True, log @ [APIKey]))) [APIKey]) []
     = Some [APIKey]
   \<and> canActivate (authTypeGuardMap (\<lambda>log. (Rejects (Error ''jwt expired''), log @ [Bearer]))
                                     (\<lambda>log. (Returns True, log @ [APIKey])))
        (Some \<lparr>authTypes = [APIKey, Bearer, APIKey], options = \<lparr>condition = And\<rparr>\<rparr>) []
     = (Inl (Error ''jwt expired''), [APIKey, Bearer])
   \<and> canActivate (authTypeGuardMap (\<lambda>log. (Throws (Error ''jwt expired''), log @ [Bearer]))
                                     (\<lambda>log. (Returns True, log @ [APIKey])))
        (Some \<lparr>authTypes = [APIKey, Bearer, APIKey], options = \<lparr>condition = And\<rparr>\<rparr>) []
     = (Inl (Error ''jwt expired''), [APIKey, Bearer])
   \<and> canActivate (authTypeGuardMap (\<lambda>log. (Returns False, log @ [Bearer]))
                                     (\<lambda>log. (Returns True, log @ [APIKey])))
        (Some \<lparr>authTypes = [APIKey, Bearer, APIKey], options = \<lparr>condition = And\<rparr>\<rparr>) []
     = (Inl (UnauthorizedException ''Unauthorized''), [APIKey, Bearer])
   \<and> fails (fst ((\<lambda>log. (Rejects (Error ''jwt expired''), log @ [Bearer])) ([] :: AuthType list)))
   \<and> (\<exists>err. canActivate (authTypeGuardMap (\<lambda>log. (Rejects (Error ''jwt expired''), log @ [Bearer]))
                                               (\<lambda>log. (Returns True, log @ [APIKey])))
                 (Some (Auth [Bearer, APIKey] None)) []
               = (Inl err, [Bearer]))
   \<and> APIKeyGuard ''k'' \<lparr>headers = [''x-api-key'' \<mapsto> ''k'']\<rparr>
       = (Returns True, \<lparr>headers = [''x-api-key'' \<mapsto> ''k'']\<rparr>)
   \<and> canActivate (authTypeGuardMap (\<lambda>request. (Rejects (Error ''jwt expired''), request))
                                     (APIKeyGuard ''k''))
        (Some (Auth [Bearer, APIKey] (Some \<lparr>condition = And\<rparr>)))
        \<lparr>headers = [''x-api-key'' \<mapsto> ''k'']\<rparr>
     = (Inl (Error ''jwt expired''), \<lparr>headers = [''x-api-key'' \<mapsto> ''k'']\<rparr>)
   \<and> canActivate (authTypeGuardMap (\<lambda>request. (Returns True, request)) (APIKeyGuard ''k''))
        (Some (Auth [Bearer, APIKey] (Some \<lparr>condition = And\<rparr>)))
        \<lparr>headers = [''x-api-key'' \<mapsto> ''wrong'']\<rparr>
     = (Inl (UnauthorizedException ''Unauthorized''), \<lparr>headers = [''x-api-key'' \<mapsto> ''wrong'']\<rparr>)"
  using canActivate_and_mode
          [where gm = "authTypeGuardMap (\<lambda>log. (Rejects (Error ''jwt expired''), log @ [Bearer]))
                                (\<lambda>log. (Returns True, log @ [APIKey]))"
             and pre = "[APIKey]" and c = "[]" and ?c1.0 = "[APIKey]" and a = Bearer
             and e = "Error ''jwt expired''" and ?c2.0 = "[APIKey, Bearer]" and post = "[APIKey]"
             and ats = "[]" and b = True and c' = "[]"
             and bearer = "\<lambda>log. (Rejects (Error ''jwt expired''), log @ [Bearer])"
             and apiKey = "\<lambda>log. (Returns True, log @ [APIKey])"]
        canActivate_and_mode
          [where gm = "authTypeGuardMap (\<lambda>log. (Throws (Error ''jwt expired''), log @ [Bearer]))
                                (\<lambda>log. (Returns True, log @ [APIKey]))"
             and pre = "[APIKey]" and c = "[]" and ?c1.0 = "[APIKey]" and a = Bearer
             and e = "Error ''jwt expired''" and ?c2.0 = "[APIKey, Bearer]" and post = "[APIKey]"]
        canActivate_and_mode
          [where gm = "authTypeGuardMap (\<lambda>log. (Returns False, log @ [Bearer]))
                                (\<lambda>log. (Returns True, log @ [APIKey]))"
             and pre = "[APIKey]" and c = "[]" and ?c1.0 = "[APIKey]" and a = Bearer
             and ?c2.0 = "[APIKey, Bearer]" and post = "[APIKey]"]
        canActivate_and_mode
          [where gm = "authTypeGuardMap (\<lambda>request. (Rejects (Error ''jwt expired''), request))
                                        (APIKeyGuard ''k'')"
             and pre = "[]" and a = Bearer and post = "[APIKey]"
             and c = "\<lparr>headers = [''x-api-key'' \<mapsto> ''k'']\<rparr>"
             and ?c1.0 = "\<lparr>headers = [''x-api-key'' \<mapsto> ''k'']\<rparr>"
             and ?c2.0 = "\<lparr>headers = [''x-api-key'' \<mapsto> ''k'']\<rparr>"
             and e = "Error ''jwt expired''"]
        canActivate_and_mode
          [where gm = "authTypeGuardMap (\<lambda>request. (Returns True, request)) (APIKeyGuard ''k'')"
             and pre = "[Bearer]" and a = APIKey and post = "[]"
             and c = "\<lparr>headers = [''x-api-key'' \<mapsto> ''wrong'']\<rparr>"
             and ?c1.0 = "\<lparr>headers = [''x-api-key'' \<mapsto> ''wrong'']\<rparr>"
             and ?c2.0 = "\<lparr>headers = [''x-api-key'' \<mapsto> ''wrong'']\<rparr>"
             and e = "UnauthorizedException ''Unauthorized''"]
  by (simp add: succeeds_def fails_def UnauthorizedException_default_def APIKeyGuard_def Auth_def)

subsection \<open>C9: strategies combined with Or\<close>

text \<open>
  Claim C9 at the input where the code departs from it: the route
  \<open>Auth([APIKey, Bearer], Or)\<close>, a request with a wrong API key, and a bearer guard that
  returns true. \<open>APIKeyGuard\<close> throws inside the call itself, so nothing catches it:
  \<open>canActivate\<close> throws its \<open>UnauthorizedException\<close> and the bearer guard, which would
  succeed, is never called (with guards that log their calls, the log holds the API-key
  guard alone). With a bearer guard that rejects, both strategies fail and the exception
  is still the first strategy's, the second not having run. For comparison, the order
  \<open>[Bearer, APIKey]\<close> with a bearer guard that rejects and an API-key guard that
  passes: the rejection is caught and access is granted.
\<close>

theorem canActivate_or_mode_synchronous_throw:
  "canActivate (authTypeGuardMap (\<lambda>request. (Returns True, request)) (APIKeyGuard ''k''))
      (Some (Auth [APIKey, Bearer] (Some \<lparr>condition = Or\<rparr>)))
      \<lparr>headers = [''x-api-key'' \<mapsto> ''wrong'']\<rparr>
     = (Inl (UnauthorizedException ''Unauthorized''), \<lparr>headers = [''x-api-key'' \<mapsto> ''wrong'']\<rparr>)
   \<and> canActivate (authTypeGuardMap
                     (\<lambda>log. (Returns True, log @ [Bearer]))
                     (\<lambda>log. (Throws (UnauthorizedException ''Unauthorized''), log @ [APIKey])))
        (Some (Auth [APIKey, Bearer] (Some \<lparr>condition = Or\<rparr>))) []
     = (Inl (UnauthorizedException ''Unauthorized''), [APIKey])
   \<and> canActivate (authTypeGuardMap
                     (\<lambda>log. (Rejects (Error ''jwt expired''), log @ [Bearer]))
                     (\<lambda>log. (Throws (UnauthorizedException ''Unauthorized''), log @ [APIKey])))
        (Some (Auth [APIKey, Bearer] (Some \<lparr>condition = Or\<rparr>))) []
     = (Inl (UnauthorizedException ''Unauthorized''), [APIKey])
   \<and> canActivate (authTypeGuardMap
                     (\<lambda>log. (Rejects (Error ''jwt expired''), log @ [Bearer]))
                     (\<lambda>log. (Returns True, log @ [APIKey])))
        (Some (Auth [Bearer, APIKey] (Some \<lparr>condition = Or\<rparr>))) []
     = (Inr True, [Bearer, APIKey])"
  by (simp add: canActivate_def Auth_def guarded_def APIKeyGuard_def
        UnauthorizedException_default_def)

subsection \<open>C10: a failure after the deletion\<close>

text \<open>
  Claim C10. If the presented token verifies, its row is found and deleted, and
  \<open>generateTokens\<close> then throws \<open>e\<close>, \<open>refreshToken\<close> throws an \<open>UnauthorizedException\<close>
  in the state \<open>generateTokens\<close> left: no store call follows that would restore the row.
  On the database model, unless \<open>e\<close> is a not-found error of the ORM, the exception is
  the default \<open>UnauthorizedException()\<close> and the database is the given one without the
  presented token; this is the case in particular when the replacement refresh token
  collides with another stored row, so that persisting it fails.
\<close>

theorem refreshToken_no_rollback:
  "(verifyRefreshToken (tokenService this) now presented = Inr decoded \<and>
    refreshToken_findUniqueOrThrow (prismaService this) presented s = (Inr found, s1) \<and>
    refreshToken_delete (prismaService this) presented s1 = (Inr deleted, s2) \<and>
    generateTokens this now (TokenPayload.userId decoded) s2 = (Inl e, s3) \<longrightarrow>
      refreshToken this now presented s =
        (Inl (UnauthorizedException
           (if isNotFoundPrismaError e then ''Refresh token has been revoked''
            else ''Unauthorized'')), s3))
   \<and> (verifyRefreshToken \<lparr>jwtService = J, config = cfg\<rparr> now presented = Inr decoded \<and>
      presented \<in> stored_tokens db \<and>
      generateTokens (service H J cfg) now (TokenPayload.userId decoded)
        (without_token presented db) = (Inl e, db') \<and>
      \<not> isNotFoundPrismaError e \<longrightarrow>
      refreshToken (service H J cfg) now presented db
        = (Inl UnauthorizedException_default, without_token presented db) \<and>
      presented \<notin> stored_tokens (without_token presented db))
   \<and> (verifyRefreshToken \<lparr>jwtService = J, config = cfg\<rparr> now presented = Inr decoded \<and>
      presented \<in> stored_tokens db \<and>
      signAccessToken \<lparr>jwtService = J, config = cfg\<rparr> now (TokenPayload.userId decoded) = Inr a \<and>
      signRefreshToken \<lparr>jwtService = J, config = cfg\<rparr> now (TokenPayload.userId decoded) = Inr r \<and>
      verifyRefreshToken \<lparr>jwtService = J, config = cfg\<rparr> now r = Inr d \<and>
      r \<in> stored_tokens db \<and> r \<noteq> presented \<longrightarrow>
      refreshToken (service H J cfg) now presented db
        = (Inl UnauthorizedException_default, without_token presented db))"
proof (intro conjI impI)
  assume h: "verifyRefreshToken (tokenService this) now presented = Inr decoded \<and>
    refreshToken_findUniqueOrThrow (prismaService this) presented s = (Inr found, s1) \<and>
    refreshToken_delete (prismaService this) presented s1 = (Inr deleted, s2) \<and>
    generateTokens this now (TokenPayload.userId decoded) s2 = (Inl e, s3)"
  then have "refreshToken_try this now presented s = (Inl e, s3)"
    by (simp add: refreshToken_try_def)
  then show "refreshToken this now presented s =
        (Inl (UnauthorizedException
           (if isNotFoundPrismaError e then ''Refresh token has been revoked''
            else ''Unauthorized'')), s3)"
    by (rule refreshToken_catch)
next
  assume h: "verifyRefreshToken \<lparr>jwtService = J, config = cfg\<rparr> now presented = Inr decoded \<and>
      presented \<in> stored_tokens db \<and>
      generateTokens (service H J cfg) now (TokenPayload.userId decoded)
        (without_token presented db) = (Inl e, db') \<and>
      \<not> isNotFoundPrismaError e"
  then have "db' = without_token presented db"
    by (blast dest: generateTokens_db_failure)
  with h have "refreshToken_try (service H J cfg) now presented db
      = (Inl e, without_token presented db)"
    by (simp add: refreshToken_try_db)
  from refreshToken_catch [OF this] h
  show "refreshToken (service H J cfg) now presented db
        = (Inl UnauthorizedException_default, without_token presented db)"
    by (simp add: UnauthorizedException_default_def)
next
  show "presented \<notin> stored_tokens (without_token presented db)"
    by (simp add: stored_tokens_without)
next
  assume h: "verifyRefreshToken \<lparr>jwtService = J, config = cfg\<rparr> now presented = Inr decoded \<and>
      presented \<in> stored_tokens db \<and>
      signAccessToken \<lparr>jwtService = J, config = cfg\<rparr> now (TokenPayload.userId decoded) = Inr a \<and>
      signRefreshToken \<lparr>jwtService = J, config = cfg\<rparr> now (TokenPayload.userId decoded) = Inr r \<and>
      verifyRefreshToken \<lparr>jwtService = J, config = cfg\<rparr> now r = Inr d \<and>
      r \<in> stored_tokens db \<and> r \<noteq> presented"
  then have "r \<in> stored_tokens (without_token presented db)"
    by (simp add: stored_tokens_without)
  with h have "refreshToken_try (service H J cfg) now presented db
      = (Inl (PrismaClientKnownRequestError ''P2002''), without_token presented db)"
    by (simp add: refreshToken_try_db generateTokens_db_duplicate)
  from refreshToken_catch [OF this]
  show "refreshToken (service H J cfg) now presented db
        = (Inl UnauthorizedException_default, without_token presented db)"
    by (simp add: UnauthorizedException_default_def)
qed

text \<open>
  C10, witness: in second 2 the token of second 1 is presented while the token that
  second 2 signs for the same user is already stored.
\<close>

theorem refreshToken_no_rollback_witness:
  "verifyRefreshToken (tokenService demo_service) 2 ''r.u.i''
     = Inr \<lparr>TokenPayload.userId = 1, iat = 1, exp = 4\<rparr>
   \<and> ''r.u.i'' \<in> stored_tokens demo_db_two
   \<and> generateTokens demo_service 2 1 demo_db_rotated
       = (Inl (PrismaClientKnownRequestError ''P2002''), demo_db_rotated)
   \<and> refreshToken demo_service 2 ''r.u.i'' demo_db_two
       = (Inl (UnauthorizedException ''Unauthorized''), demo_db_rotated)
   \<and> ''r.u.i'' \<notin> stored_tokens demo_db_rotated"
  using refreshToken_no_rollback
          [where this = demo_service and now = 2 and presented = "''r.u.i''"
             and decoded = "\<lparr>TokenPayload.userId = 1, iat = 1, exp = 4\<rparr>"
             and s = demo_db_two and ?s1.0 = demo_db_two and ?s2.0 = demo_db_rotated
             and ?s3.0 = demo_db_rotated
             and found = "\<lparr>token = ''r.u.i'', userId = 1, expiresAt = 4000\<rparr>"
             and deleted = "\<lparr>token = ''r.u.i'', userId = 1, expiresAt = 4000\<rparr>"
             and e = "PrismaClientKnownRequestError ''P2002''"
             and H = demo_hashing and J = demo_jwt and cfg = demo_config and db = demo_db_two
             and db' = demo_db_rotated and a = "''a.u.ii''" and r = "''r.u.ii''"
             and d = "\<lparr>TokenPayload.userId = 1, iat = 2, exp = 5\<rparr>"]
  by (simp add: demo_defs service_defs)

end
